theory Spec2Isabelle
  imports Main "HOL-Library.AList"
begin

section \<open>Python values and exceptions\<close>

text \<open>
  The notebook \<^verbatim>\<open>Finetuning/DPO_Finetuning.ipynb\<close> works on dynamically typed, JSON-like
  values: dataset rows and converted records are dictionaries with string keys, whose
  values are strings, lists and further dictionaries. A dictionary is an association list
  in insertion order with pairwise distinct keys; \<open>map_of\<close> is the lookup. A character of
  a Python string is a \<^typ>\<open>char\<close> of the model: the code modelled here never looks inside a
  string, it passes strings on, so nothing below depends on the size of the character set.
\<close>

datatype pyval =
    PNone
  | PBool bool
  | PInt int
  | PStr string
  | PList "pyval list"
  | PDict "(string \<times> pyval) list"

text \<open>
  The exceptions of the code modelled here: KeyError and TypeError from subscripting and
  iterating such values; ValueError and RecursionError, which \<^verbatim>\<open>json.dumps\<close> raises
  besides TypeError; FileNotFoundError from \<^verbatim>\<open>os.makedirs\<close>.
\<close>

datatype pyerr =
    KeyError string
  | TypeError
  | ValueError
  | RecursionError
  | FileNotFoundError

text \<open>
  \<^verbatim>\<open>obj[k]\<close> with a string key \<open>k\<close>: a dictionary returns the value or raises KeyError;
  a list or a string raises TypeError (their indices must be integers); None, a boolean and
  a number are not subscriptable and raise TypeError.
\<close>

fun py_getitem :: "pyval \<Rightarrow> string \<Rightarrow> pyerr + pyval" where
  "py_getitem (PDict kvs) k =
     (case map_of kvs k of None \<Rightarrow> Inl (KeyError k) | Some v \<Rightarrow> Inr v)"
| "py_getitem _ k = Inl TypeError"

text \<open>
  The elements a \<^verbatim>\<open>for\<close> loop (or \<^verbatim>\<open>list.extend\<close>) draws from a value: the elements
  of a list, the one-character strings of a string, the keys of a dictionary; None, a
  boolean and a number are not iterable and raise TypeError.
\<close>

fun py_iter :: "pyval \<Rightarrow> pyerr + pyval list" where
  "py_iter (PList xs) = Inr xs"
| "py_iter (PStr s) = Inr (map (\<lambda>c. PStr [c]) s)"
| "py_iter (PDict kvs) = Inr (map (\<lambda>kv. PStr (fst kv)) kvs)"
| "py_iter _ = Inl TypeError"


section \<open>Conversion to the preference format\<close>

text \<open>
  The body of the inner loop of \<^verbatim>\<open>convert_to_preference_dataset\<close>: the three
  subscripts \<^verbatim>\<open>example["prompt"]\<close>, \<^verbatim>\<open>example["chosen_response"]\<close> and
  \<^verbatim>\<open>example["rejected_response"]\<close> are evaluated in this order, and the dictionary that
  is appended to \<^verbatim>\<open>converted_dataset[split]\<close> is built from them.
\<close>

definition convert_example :: "pyval \<Rightarrow> pyerr + pyval" where
  "convert_example example =
     (case py_getitem example ''prompt'' of
        Inl e \<Rightarrow> Inl e
      | Inr prompt \<Rightarrow>
     (case py_getitem example ''chosen_response'' of
        Inl e \<Rightarrow> Inl e
      | Inr chosen \<Rightarrow>
     (case py_getitem example ''rejected_response'' of
        Inl e \<Rightarrow> Inl e
      | Inr rejected \<Rightarrow>
          (let messages = [PDict [(''role'', PStr ''user''), (''content'', prompt)]];
               preferred_output = [PDict [(''role'', PStr ''assistant''), (''content'', chosen)]];
               non_preferred_output = [PDict [(''role'', PStr ''assistant''), (''content'', rejected)]]
           in Inr (PDict [(''input'', PDict [(''messages'', PList messages)]),
                          (''preferred_output'', PList preferred_output),
                          (''non_preferred_output'', PList non_preferred_output)])))))"

text \<open>
  \<^verbatim>\<open>for example in dataset[split]\<close>, over the examples still to come. The state is the
  local dictionary \<^verbatim>\<open>converted_dataset\<close>, from split name to the list collected so far;
  \<^verbatim>\<open>converted_dataset[split].append(...)\<close> looks the list up and extends it in place.
  An exception leaves the loop and the function.
\<close>

fun convert_examples ::
  "string \<Rightarrow> pyval list \<Rightarrow> (string \<times> pyval list) list \<Rightarrow> pyerr + (string \<times> pyval list) list"
where
  "convert_examples split [] converted_dataset = Inr converted_dataset"
| "convert_examples split (example # rest) converted_dataset =
     (case convert_example example of
        Inl e \<Rightarrow> Inl e
      | Inr converted \<Rightarrow>
          (case map_of converted_dataset split of
             None \<Rightarrow> Inl (KeyError split)
           | Some collected \<Rightarrow>
               convert_examples split rest
                 (AList.update split (collected @ [converted]) converted_dataset)))"

text \<open>The examples of one split: \<^verbatim>\<open>dataset[split]\<close>, then the iteration over it.\<close>

definition split_examples :: "pyval \<Rightarrow> string \<Rightarrow> pyerr + pyval list" where
  "split_examples dataset split =
     (case py_getitem dataset split of Inl e \<Rightarrow> Inl e | Inr rows \<Rightarrow> py_iter rows)"

text \<open>\<^verbatim>\<open>for split in ["train", "validation"]\<close>, over the split names still to come.\<close>

fun convert_splits ::
  "pyval \<Rightarrow> string list \<Rightarrow> (string \<times> pyval list) list \<Rightarrow> pyerr + (string \<times> pyval list) list"
where
  "convert_splits dataset [] converted_dataset = Inr converted_dataset"
| "convert_splits dataset (split # rest) converted_dataset =
     (case split_examples dataset split of
        Inl e \<Rightarrow> Inl e
      | Inr examples \<Rightarrow>
          (case convert_examples split examples converted_dataset of
             Inl e \<Rightarrow> Inl e
           | Inr converted_dataset' \<Rightarrow> convert_splits dataset rest converted_dataset'))"

definition convert_to_preference_dataset :: "pyval \<Rightarrow> pyerr + pyval" where
  "convert_to_preference_dataset dataset =
     (case convert_splits dataset [''train'', ''validation'']
             [(''train'', []), (''validation'', [])] of
        Inl e \<Rightarrow> Inl e
      | Inr converted_dataset \<Rightarrow>
          Inr (PDict (map (\<lambda>kv. (fst kv, PList (snd kv))) converted_dataset)))"


section \<open>Conversion to the supervised format\<close>

text \<open>\<^verbatim>\<open>for msg in ...: messages.append(msg)\<close>, over the messages still to come.\<close>

fun append_each :: "pyval list \<Rightarrow> pyval list \<Rightarrow> pyval list" where
  "append_each messages [] = messages"
| "append_each messages (msg # rest) = append_each (messages @ [msg]) rest"

text \<open>
  \<^verbatim>\<open>convert_preference_to_sft_format\<close>: \<^verbatim>\<open>data["input"]["messages"]\<close> is evaluated and
  iterated first, then \<^verbatim>\<open>data["preferred_output"]\<close> is evaluated and its elements are
  appended by \<^verbatim>\<open>messages.extend\<close>.
\<close>

definition convert_preference_to_sft_format :: "pyval \<Rightarrow> pyerr + pyval" where
  "convert_preference_to_sft_format data =
     (case py_getitem data ''input'' of
        Inl e \<Rightarrow> Inl e
      | Inr inp \<Rightarrow>
     (case py_getitem inp ''messages'' of
        Inl e \<Rightarrow> Inl e
      | Inr input_messages \<Rightarrow>
     (case py_iter input_messages of
        Inl e \<Rightarrow> Inl e
      | Inr msgs \<Rightarrow>
     (let messages = append_each [] msgs in
     (case py_getitem data ''preferred_output'' of
        Inl e \<Rightarrow> Inl e
      | Inr preferred_output \<Rightarrow>
     (case py_iter preferred_output of
        Inl e \<Rightarrow> Inl e
      | Inr extension \<Rightarrow> Inr (PDict [(''messages'', PList (messages @ extension))])))))))"

text \<open>
  What \<^verbatim>\<open>process_preference_to_sft\<close> prints: the progress line, the line of the
  exception handler with the number it shows and the exception, and the closing line with
  the count, the split and the output path.
\<close>

datatype printed =
    Processed nat
  | ErrorProcessing nat pyerr
  | ProcessedFor nat string string

text \<open>
  The state of \<^verbatim>\<open>process_preference_to_sft\<close>: the counter, the lines written to
  \<^verbatim>\<open>outfile\<close> so far, and what has been printed so far.
\<close>

record sft_state =
  line_count :: nat
  outfile :: "string list"
  stdout :: "printed list"

text \<open>
  One pass of the loop body. \<^verbatim>\<open>json.dumps\<close> belongs to the Python standard library and
  is a parameter \<open>dumps\<close>, which returns the text or raises. The three statements after the
  conversion are inside the \<^verbatim>\<open>try\<close> too: when \<^verbatim>\<open>json.dumps\<close> raises, nothing is written
  and the counter stays. The \<^verbatim>\<open>except Exception\<close> handler prints and the loop goes on.
\<close>

definition process_example ::
  "(pyval \<Rightarrow> pyerr + string) \<Rightarrow> string \<Rightarrow> pyval \<Rightarrow> sft_state \<Rightarrow> sft_state" where
  "process_example dumps split example st =
     (case convert_preference_to_sft_format example of
        Inl e \<Rightarrow> st\<lparr>stdout := stdout st @ [ErrorProcessing (line_count st + 1) e]\<rparr>
      | Inr sft_format \<Rightarrow>
          (case dumps sft_format of
             Inl e \<Rightarrow> st\<lparr>stdout := stdout st @ [ErrorProcessing (line_count st + 1) e]\<rparr>
           | Inr text \<Rightarrow>
               (let st1 = st\<lparr>outfile := outfile st @ [text @ [CHR 0x0A]]\<rparr>;
                    st2 = st1\<lparr>line_count := line_count st1 + 1\<rparr>
                in if line_count st2 mod 2000 = 0 \<and> split = ''train''
                   then st2\<lparr>stdout := stdout st2 @ [Processed (line_count st2)]\<rparr>
                   else st2)))"

fun process_examples ::
  "(pyval \<Rightarrow> pyerr + string) \<Rightarrow> string \<Rightarrow> pyval list \<Rightarrow> sft_state \<Rightarrow> sft_state" where
  "process_examples dumps split [] st = st"
| "process_examples dumps split (example # rest) st =
     process_examples dumps split rest (process_example dumps split example st)"

text \<open>
  \<^verbatim>\<open>os.path.dirname\<close> of the Python standard library, for POSIX paths: the path up to
  and including its last slash, without the trailing slashes unless it consists of slashes
  only. A path without a slash has the empty directory name.
\<close>

definition os_path_dirname :: "string \<Rightarrow> string" where
  "os_path_dirname p =
     (let head = rev (dropWhile (\<lambda>c. c \<noteq> CHR ''/'') (rev p))
      in if head \<noteq> [] \<and> head \<noteq> replicate (length head) (CHR ''/'')
         then rev (dropWhile (\<lambda>c. c = CHR ''/'') (rev head))
         else head)"

text \<open>
  \<^verbatim>\<open>os.makedirs(name, exist_ok=True)\<close>: the empty name raises FileNotFoundError; a
  directory that exists already is accepted. Other failures of the file system
  (permissions, a file in the way) are not modelled.
\<close>

definition os_makedirs :: "string \<Rightarrow> pyerr + unit" where
  "os_makedirs name = (if name = [] then Inl FileNotFoundError else Inr ())"

text \<open>
  \<^verbatim>\<open>process_preference_to_sft\<close>. The first statement creates the directory of
  \<^verbatim>\<open>output_path\<close> and raises when the path has none. \<^verbatim>\<open>input_data[split]\<close> and the
  start of its iteration are outside the \<^verbatim>\<open>try\<close>, so their exceptions leave the function
  as well. The value returned is the \<open>line_count\<close> of the final state. Failures of opening
  and writing the file are not modelled.
\<close>

definition process_preference_to_sft ::
  "(pyval \<Rightarrow> pyerr + string) \<Rightarrow> pyval \<Rightarrow> string \<Rightarrow> string \<Rightarrow> pyerr + sft_state" where
  "process_preference_to_sft dumps input_data output_path split =
     (case os_makedirs (os_path_dirname output_path) of
        Inl e \<Rightarrow> Inl e
      | Inr _ \<Rightarrow>
     (case split_examples input_data split of
        Inl e \<Rightarrow> Inl e
      | Inr examples \<Rightarrow>
          (let st = process_examples dumps split examples
                      \<lparr>line_count = 0, outfile = [], stdout = []\<rparr>
           in Inr (st\<lparr>stdout := stdout st @ [ProcessedFor (line_count st) split output_path]\<rparr>))))"


section \<open>The record formats\<close>

text \<open>
  A dataset row of the notebook has the columns \<^verbatim>\<open>prompt\<close>, \<^verbatim>\<open>chosen_response\<close> and
  \<^verbatim>\<open>rejected_response\<close>, each a string (other columns may be present).
\<close>

definition has_string :: "pyval \<Rightarrow> string \<Rightarrow> bool" where
  "has_string row k = (case py_getitem row k of Inr (PStr _) \<Rightarrow> True | _ \<Rightarrow> False)"


text \<open>
  The preference format as the notebook states it: \<^verbatim>\<open>input.messages\<close> is a list of
  messages, \<^verbatim>\<open>preferred_output\<close> and \<^verbatim>\<open>non_preferred_output\<close> are lists of exactly one
  assistant message; a message has a role, \<^verbatim>\<open>user\<close> or \<^verbatim>\<open>assistant\<close>, and a string
  content.
\<close>

definition is_chat_message :: "pyval \<Rightarrow> bool" where
  "is_chat_message m =
     (case m of
        PDict kvs \<Rightarrow>
          distinct (map fst kvs) \<and> set (map fst kvs) = {''role'', ''content''}
          \<and> (case map_of kvs ''role'' of
                Some (PStr r) \<Rightarrow> r = ''user'' \<or> r = ''assistant''
              | _ \<Rightarrow> False)
          \<and> has_string m ''content''
      | _ \<Rightarrow> False)"

definition is_single_assistant :: "pyval \<Rightarrow> bool" where
  "is_single_assistant v =
     (case v of
        PList [m] \<Rightarrow> is_chat_message m \<and> py_getitem m ''role'' = Inr (PStr ''assistant'')
      | _ \<Rightarrow> False)"

definition is_preference_record :: "pyval \<Rightarrow> bool" where
  "is_preference_record r =
     (case r of
        PDict kvs \<Rightarrow>
          distinct (map fst kvs)
          \<and> set (map fst kvs) = {''input'', ''preferred_output'', ''non_preferred_output''}
          \<and> (case map_of kvs ''input'' of
                Some (PDict inp) \<Rightarrow>
                  map fst inp = [''messages'']
                  \<and> (case map_of inp ''messages'' of
                        Some (PList ms) \<Rightarrow> list_all is_chat_message ms
                      | _ \<Rightarrow> False)
              | _ \<Rightarrow> False)
          \<and> (case map_of kvs ''preferred_output'' of
                Some v \<Rightarrow> is_single_assistant v | None \<Rightarrow> False)
          \<and> (case map_of kvs ''non_preferred_output'' of
                Some v \<Rightarrow> is_single_assistant v | None \<Rightarrow> False)
      | _ \<Rightarrow> False)"


text \<open>
  The lines a run over \<open>examples\<close> writes: one per example that converts and serialises,
  in order, each the serialised record followed by a line feed; nothing for an example
  that raises.
\<close>

definition sft_lines :: "(pyval \<Rightarrow> pyerr + string) \<Rightarrow> pyval list \<Rightarrow> string list" where
  "sft_lines dumps examples =
     concat (map (\<lambda>example.
                    case convert_preference_to_sft_format example of
                      Inl e \<Rightarrow> []
                    | Inr sft_format \<Rightarrow>
                        (case dumps sft_format of
                           Inl e \<Rightarrow> []
                         | Inr text \<Rightarrow> [text @ [CHR 0x0A]]))
                 examples)"


section \<open>Facts about the values\<close>



lemma append_each_eq: "append_each acc ms = acc @ ms"
  by (induction ms arbitrary: acc) simp_all


lemma is_chat_message_literal:
  "(role = ''user'' \<or> role = ''assistant'') \<Longrightarrow>
   is_chat_message (PDict [(''role'', PStr role), (''content'', PStr c)])"
  by (auto simp: is_chat_message_def has_string_def)


section \<open>The loops of the preference conversion\<close>

text \<open>
  When every example converts, the inner loop extends the list of its split by the
  converted records, in order; one failing example makes the loop fail.
\<close>

lemma convert_examples_Inr:
  assumes "map_of cd split = Some acc"
      and "list_all2 (\<lambda>x r. convert_example x = Inr r) xs rs"
  shows "convert_examples split xs cd = Inr (AList.update split (acc @ rs) cd)"
  using assms(2,1)
proof (induction xs rs arbitrary: cd acc rule: list_all2_induct)
  case Nil
  then show ?case by (simp add: update_triv)
next
  case (Cons x xs r rs)
  have "map_of (AList.update split (acc @ [r]) cd) split = Some (acc @ [r])"
    by (simp add: update_conv')
  from Cons.IH [OF this] Cons.hyps(1) Cons.prems show ?case by simp
qed

lemma convert_examples_Inl:
  assumes "x \<in> set xs" and "isl (convert_example x)"
  shows "isl (convert_examples split xs cd)"
  using assms
proof (induction xs arbitrary: cd)
  case Nil
  then show ?case by simp
next
  case (Cons y ys)
  then show ?case by (auto split: sum.splits option.splits)
qed

lemma convert_examples_Inr_iff:
  assumes "map_of cd split = Some acc"
  shows "(convert_examples split xs cd = Inr cd') =
         (\<exists>rs. list_all2 (\<lambda>x r. convert_example x = Inr r) xs rs
               \<and> cd' = AList.update split (acc @ rs) cd)"
proof
  assume ok: "convert_examples split xs cd = Inr cd'"
  have "\<forall>x\<in>set xs. \<exists>r. convert_example x = Inr r"
  proof
    fix x assume "x \<in> set xs"
    show "\<exists>r. convert_example x = Inr r"
    proof (cases "convert_example x")
      case (Inl e)
      with \<open>x \<in> set xs\<close> have "isl (convert_examples split xs cd)"
        by (auto intro: convert_examples_Inl)
      with ok show ?thesis by simp
    next
      case (Inr r)
      then show ?thesis by blast
    qed
  qed
  then obtain rs where rs: "list_all2 (\<lambda>x r. convert_example x = Inr r) xs rs"
    by (induction xs) (auto simp: list_all2_Cons1)
  from convert_examples_Inr [OF assms rs] ok
  show "\<exists>rs. list_all2 (\<lambda>x r. convert_example x = Inr r) xs rs
               \<and> cd' = AList.update split (acc @ rs) cd"
    using rs by auto
next
  assume "\<exists>rs. list_all2 (\<lambda>x r. convert_example x = Inr r) xs rs
               \<and> cd' = AList.update split (acc @ rs) cd"
  then show "convert_examples split xs cd = Inr cd'"
    using convert_examples_Inr [OF assms] by blast
qed

lemma convert_splits_Inr:
  assumes tr: "split_examples dataset ''train'' = Inr tr"
      and va: "split_examples dataset ''validation'' = Inr va"
      and ptr: "list_all2 (\<lambda>x r. convert_example x = Inr r) tr ptr"
      and pva: "list_all2 (\<lambda>x r. convert_example x = Inr r) va pva"
  shows "convert_splits dataset [''train'', ''validation'']
           [(''train'', []), (''validation'', [])] =
         Inr [(''train'', ptr), (''validation'', pva)]"
proof -
  have c1: "convert_examples ''train'' tr [(''train'', []), (''validation'', [])] =
            Inr [(''train'', ptr), (''validation'', [])]"
    using convert_examples_Inr [OF _ ptr, of "[(''train'', []), (''validation'', [])]" "''train''" "[]"]
    by simp
  have c2: "convert_examples ''validation'' va [(''train'', ptr), (''validation'', [])] =
            Inr [(''train'', ptr), (''validation'', pva)]"
    using convert_examples_Inr [OF _ pva, of "[(''train'', ptr), (''validation'', [])]" "''validation''" "[]"]
    by simp
  show ?thesis
    by (simp add: tr va c1 c2)
qed

lemma convert_splits_InrD:
  assumes "convert_splits dataset [''train'', ''validation'']
             [(''train'', []), (''validation'', [])] = Inr cd"
  obtains tr va ptr pva where
    "split_examples dataset ''train'' = Inr tr"
    "split_examples dataset ''validation'' = Inr va"
    "list_all2 (\<lambda>x r. convert_example x = Inr r) tr ptr"
    "list_all2 (\<lambda>x r. convert_example x = Inr r) va pva"
    "cd = [(''train'', ptr), (''validation'', pva)]"
proof -
  obtain tr where tr: "split_examples dataset ''train'' = Inr tr"
    using assms by (cases "split_examples dataset ''train''") simp_all
  obtain cd1 where c1:
    "convert_examples ''train'' tr [(''train'', []), (''validation'', [])] = Inr cd1"
    using assms tr
    by (cases "convert_examples ''train'' tr [(''train'', []), (''validation'', [])]") simp_all
  obtain va where va: "split_examples dataset ''validation'' = Inr va"
    using assms tr c1 by (cases "split_examples dataset ''validation''") simp_all
  have c2: "convert_examples ''validation'' va cd1 = Inr cd"
    using assms tr c1 va by (cases "convert_examples ''validation'' va cd1") simp_all
  have "map_of [(''train'', []), (''validation'', [])] ''train'' = Some ([] :: pyval list)"
    by simp
  from c1 [unfolded convert_examples_Inr_iff [OF this]]
  obtain ptr where ptr: "list_all2 (\<lambda>x r. convert_example x = Inr r) tr ptr"
    and cd1: "cd1 = [(''train'', ptr), (''validation'', [])]"
    by auto
  have "map_of cd1 ''validation'' = Some []"
    by (simp add: cd1)
  from c2 [unfolded convert_examples_Inr_iff [OF this]]
  obtain pva where pva: "list_all2 (\<lambda>x r. convert_example x = Inr r) va pva"
    and cd: "cd = [(''train'', ptr), (''validation'', pva)]"
    by (auto simp: cd1)
  from tr va ptr pva cd show thesis by (rule that)
qed

lemma convert_to_preference_dataset_Inr:
  assumes "split_examples dataset ''train'' = Inr tr"
      and "split_examples dataset ''validation'' = Inr va"
      and "list_all2 (\<lambda>x r. convert_example x = Inr r) tr ptr"
      and "list_all2 (\<lambda>x r. convert_example x = Inr r) va pva"
  shows "convert_to_preference_dataset dataset =
           Inr (PDict [(''train'', PList ptr), (''validation'', PList pva)])"
  unfolding convert_to_preference_dataset_def convert_splits_Inr [OF assms]
  by simp

lemma convert_to_preference_dataset_InrD:
  assumes "convert_to_preference_dataset dataset = Inr out"
  obtains tr va ptr pva where
    "split_examples dataset ''train'' = Inr tr"
    "split_examples dataset ''validation'' = Inr va"
    "list_all2 (\<lambda>x r. convert_example x = Inr r) tr ptr"
    "list_all2 (\<lambda>x r. convert_example x = Inr r) va pva"
    "out = PDict [(''train'', PList ptr), (''validation'', PList pva)]"
proof -
  obtain cd where cd: "convert_splits dataset [''train'', ''validation'']
                         [(''train'', []), (''validation'', [])] = Inr cd"
    and out: "out = PDict (map (\<lambda>kv. (fst kv, PList (snd kv))) cd)"
    using assms unfolding convert_to_preference_dataset_def
    by (cases "convert_splits dataset [''train'', ''validation'']
                 [(''train'', []), (''validation'', [])]") simp_all
  from cd obtain tr va ptr pva where h:
    "split_examples dataset ''train'' = Inr tr"
    "split_examples dataset ''validation'' = Inr va"
    "list_all2 (\<lambda>x r. convert_example x = Inr r) tr ptr"
    "list_all2 (\<lambda>x r. convert_example x = Inr r) va pva"
    "cd = [(''train'', ptr), (''validation'', pva)]"
    by (rule convert_splits_InrD)
  from out h(5) have "out = PDict [(''train'', PList ptr), (''validation'', PList pva)]"
    by simp
  with h(1-4) show thesis by (rule that)
qed

lemma list_all2_Inr_all:
  assumes "list_all2 (\<lambda>x r. f x = Inr r) xs rs" and "x \<in> set xs"
  shows "\<not> isl (f x)"
  using assms by (induction xs rs rule: list_all2_induct) auto

lemma all_converted:
  assumes "\<forall>x\<in>set xs. \<not> isl (convert_example x)"
  shows "\<exists>rs. list_all2 (\<lambda>x r. convert_example x = Inr r) xs rs"
  using assms
proof (induction xs)
  case Nil
  show ?case by simp
next
  case (Cons x xs)
  then obtain rs where rs: "list_all2 (\<lambda>x r. convert_example x = Inr r) xs rs"
    by auto
  from Cons.prems obtain r where "convert_example x = Inr r"
    by (cases "convert_example x") simp_all
  with rs have "list_all2 (\<lambda>x r. convert_example x = Inr r) (x # xs) (r # rs)"
    by simp
  then show ?case ..
qed







section \<open>The loop of the supervised conversion\<close>

text \<open>
  Whatever fails, the lines written are those of the examples that convert, and the
  counter counts exactly these lines.
\<close>

lemma sft_lines_Nil: "sft_lines dumps [] = []"
  by (simp add: sft_lines_def)

lemma sft_lines_Cons: "sft_lines dumps (x # xs) = sft_lines dumps [x] @ sft_lines dumps xs"
  by (simp add: sft_lines_def)

lemma process_example_outfile:
  "outfile (process_example dumps split x st) = outfile st @ sft_lines dumps [x]"
  by (simp add: process_example_def sft_lines_def Let_def split: sum.splits)

lemma process_example_line_count:
  "line_count (process_example dumps split x st) = line_count st + length (sft_lines dumps [x])"
  by (simp add: process_example_def sft_lines_def Let_def split: sum.splits)

lemma process_examples_outfile:
  "outfile (process_examples dumps split xs st) = outfile st @ sft_lines dumps xs"
proof (induction xs arbitrary: st)
  case Nil
  show ?case by (simp add: sft_lines_Nil)
next
  case (Cons x xs)
  show ?case
    by (simp add: Cons.IH process_example_outfile sft_lines_Cons [of dumps x xs])
qed

lemma process_examples_line_count:
  "line_count (process_examples dumps split xs st) = line_count st + length (sft_lines dumps xs)"
proof (induction xs arbitrary: st)
  case Nil
  show ?case by (simp add: sft_lines_Nil)
next
  case (Cons x xs)
  show ?case
    by (simp add: Cons.IH process_example_line_count sft_lines_Cons [of dumps x xs])
qed


lemma process_preference_to_sft_Inr:
  assumes "os_makedirs (os_path_dirname output_path) = Inr ()"
      and "split_examples input_data split = Inr examples"
  shows "\<exists>st. process_preference_to_sft dumps input_data output_path split = Inr st
            \<and> outfile st = sft_lines dumps examples
            \<and> line_count st = length (sft_lines dumps examples)"
  using assms
  by (simp add: process_preference_to_sft_def Let_def process_examples_outfile
        process_examples_line_count)

lemma process_preference_to_sft_count:
  assumes "process_preference_to_sft dumps input_data output_path split = Inr st"
  shows "line_count st = length (outfile st)"
proof -
  have mk: "os_makedirs (os_path_dirname output_path) = Inr ()"
    using assms
    by (cases "os_makedirs (os_path_dirname output_path)")
       (simp_all add: process_preference_to_sft_def)
  obtain examples where ex: "split_examples input_data split = Inr examples"
    using assms mk
    by (cases "split_examples input_data split") (simp_all add: process_preference_to_sft_def)
  from process_preference_to_sft_Inr [OF mk ex, of dumps] assms
  show ?thesis by auto
qed


text \<open>A path without a directory part: the function raises before it reads a record.\<close>

lemma process_preference_to_sft_no_directory:
  "process_preference_to_sft dumps input_data ''sft.jsonl'' split = Inl FileNotFoundError"
  by (simp add: process_preference_to_sft_def os_makedirs_def os_path_dirname_def)



section \<open>The preference formatter\<close>

text \<open>
  C1. A dataset row whose \<^verbatim>\<open>prompt\<close>, \<^verbatim>\<open>chosen_response\<close> and \<^verbatim>\<open>rejected_response\<close>
  are the strings \<open>p\<close>, \<open>c\<close> and \<open>r\<close> is converted to exactly the record whose
  \<^verbatim>\<open>input.messages\<close> is the single user message with content \<open>p\<close>, whose
  \<^verbatim>\<open>preferred_output\<close> is the single assistant message with content \<open>c\<close> and whose
  \<^verbatim>\<open>non_preferred_output\<close> is the single assistant message with content \<open>r\<close>: the
  keys and messages are in this order and the three strings are unchanged.
\<close>

theorem preference_format_exact:
  assumes "map_of row ''prompt'' = Some (PStr p)"
      and "map_of row ''chosen_response'' = Some (PStr c)"
      and "map_of row ''rejected_response'' = Some (PStr r)"
  shows "convert_example (PDict row) =
           Inr (PDict [(''input'', PDict [(''messages'',
                          PList [PDict [(''role'', PStr ''user''), (''content'', PStr p)]])]),
                       (''preferred_output'',
                          PList [PDict [(''role'', PStr ''assistant''), (''content'', PStr c)]]),
                       (''non_preferred_output'',
                          PList [PDict [(''role'', PStr ''assistant''), (''content'', PStr r)]])])"
  using assms by (simp add: convert_example_def)

theorem preference_format_exact_witness:
  "convert_example (PDict [(''prompt'', PStr ''c#''), (''chosen_response'', PStr ''A''),
                           (''rejected_response'', PStr ''B'')]) =
           Inr (PDict [(''input'', PDict [(''messages'',
                          PList [PDict [(''role'', PStr ''user''), (''content'', PStr ''c#'')]])]),
                       (''preferred_output'',
                          PList [PDict [(''role'', PStr ''assistant''), (''content'', PStr ''A'')]]),
                       (''non_preferred_output'',
                          PList [PDict [(''role'', PStr ''assistant''), (''content'', PStr ''B'')]])])"
  by (rule preference_format_exact) simp_all

text \<open>
  C7. For a row whose three columns are strings, the empty string included, the conversion
  raises nothing: it returns a record that is in the preference format and whose three
  messages carry the three strings as they are.
\<close>

theorem preference_format_total:
  assumes "map_of row ''prompt'' = Some (PStr p)"
      and "map_of row ''chosen_response'' = Some (PStr c)"
      and "map_of row ''rejected_response'' = Some (PStr r)"
  shows "\<exists>converted inp.
           convert_example (PDict row) = Inr converted
         \<and> is_preference_record converted
         \<and> py_getitem converted ''input'' = Inr inp
         \<and> py_getitem inp ''messages'' =
             Inr (PList [PDict [(''role'', PStr ''user''), (''content'', PStr p)]])
         \<and> py_getitem converted ''preferred_output'' =
             Inr (PList [PDict [(''role'', PStr ''assistant''), (''content'', PStr c)]])
         \<and> py_getitem converted ''non_preferred_output'' =
             Inr (PList [PDict [(''role'', PStr ''assistant''), (''content'', PStr r)]])"
proof -
  have u: "is_chat_message (PDict [(''role'', PStr ''user''), (''content'', PStr p)])"
    by (simp add: is_chat_message_literal)
  have a: "is_single_assistant (PList [PDict [(''role'', PStr ''assistant''), (''content'', PStr s)]])"
    for s
    by (simp add: is_single_assistant_def is_chat_message_literal)
  have "is_preference_record
          (PDict [(''input'', PDict [(''messages'',
                     PList [PDict [(''role'', PStr ''user''), (''content'', PStr p)]])]),
                  (''preferred_output'',
                     PList [PDict [(''role'', PStr ''assistant''), (''content'', PStr c)]]),
                  (''non_preferred_output'',
                     PList [PDict [(''role'', PStr ''assistant''), (''content'', PStr r)]])])"
    unfolding is_preference_record_def using u a by auto
  then show ?thesis
    using assms by (simp add: convert_example_def)
qed

theorem preference_format_total_witness:
  "\<exists>converted inp.
     convert_example (PDict [(''prompt'', PStr []), (''chosen_response'', PStr []),
                             (''rejected_response'', PStr [])]) = Inr converted
   \<and> is_preference_record converted
   \<and> py_getitem converted ''input'' = Inr inp
   \<and> py_getitem inp ''messages'' =
       Inr (PList [PDict [(''role'', PStr ''user''), (''content'', PStr [])]])
   \<and> py_getitem converted ''preferred_output'' =
       Inr (PList [PDict [(''role'', PStr ''assistant''), (''content'', PStr [])]])
   \<and> py_getitem converted ''non_preferred_output'' =
       Inr (PList [PDict [(''role'', PStr ''assistant''), (''content'', PStr [])]])"
  by (rule preference_format_total) simp_all


section \<open>The supervised formatter\<close>

text \<open>
  C2. For a preference record whose \<^verbatim>\<open>input.messages\<close> and \<^verbatim>\<open>preferred_output\<close> are
  lists, the supervised formatter returns the record whose only field \<^verbatim>\<open>messages\<close> is
  the first list followed by the second, in order; \<^verbatim>\<open>non_preferred_output\<close> does not
  occur in it. When \<^verbatim>\<open>preferred_output\<close> has one element, the result has one message
  more than \<^verbatim>\<open>input.messages\<close>.
\<close>

theorem sft_format_concat:
  assumes "map_of p ''input'' = Some (PDict inp)"
      and "map_of inp ''messages'' = Some (PList input_messages)"
      and "map_of p ''preferred_output'' = Some (PList preferred_output)"
  shows "convert_preference_to_sft_format (PDict p) =
           Inr (PDict [(''messages'', PList (input_messages @ preferred_output))])
         \<and> (length preferred_output = 1 \<longrightarrow>
              length (input_messages @ preferred_output) = length input_messages + 1)"
  using assms by (simp add: convert_preference_to_sft_format_def append_each_eq)

theorem sft_format_concat_witness:
  "convert_preference_to_sft_format
     (PDict [(''input'', PDict [(''messages'',
                PList [PDict [(''role'', PStr ''user''), (''content'', PStr ''c#'')]])]),
             (''preferred_output'',
                PList [PDict [(''role'', PStr ''assistant''), (''content'', PStr ''A'')]]),
             (''non_preferred_output'',
                PList [PDict [(''role'', PStr ''assistant''), (''content'', PStr ''B'')]])]) =
   Inr (PDict [(''messages'',
          PList [PDict [(''role'', PStr ''user''), (''content'', PStr ''c#'')],
                 PDict [(''role'', PStr ''assistant''), (''content'', PStr ''A'')]])])
   \<and> length [PDict [(''role'', PStr ''user''), (''content'', PStr ''c#'')],
               PDict [(''role'', PStr ''assistant''), (''content'', PStr ''A'')]] = 1 + 1"
  using sft_format_concat
    [of "[(''input'', PDict [(''messages'',
                PList [PDict [(''role'', PStr ''user''), (''content'', PStr ''c#'')]])]),
          (''preferred_output'',
                PList [PDict [(''role'', PStr ''assistant''), (''content'', PStr ''A'')]]),
          (''non_preferred_output'',
                PList [PDict [(''role'', PStr ''assistant''), (''content'', PStr ''B'')]])]"
        "[(''messages'', PList [PDict [(''role'', PStr ''user''), (''content'', PStr ''c#'')]])]"
        "[PDict [(''role'', PStr ''user''), (''content'', PStr ''c#'')]]"
        "[PDict [(''role'', PStr ''assistant''), (''content'', PStr ''A'')]]"]
  by simp




text \<open>
  C6. The result of the supervised formatter, a record or an exception, is the same for
  two preference records that agree on \<^verbatim>\<open>input\<close> and on \<^verbatim>\<open>preferred_output\<close>,
  whatever \<^verbatim>\<open>non_preferred_output\<close> and the other keys are.
\<close>

theorem sft_format_ignores_rejected:
  assumes "map_of p ''input'' = map_of q ''input''"
      and "map_of p ''preferred_output'' = map_of q ''preferred_output''"
  shows "convert_preference_to_sft_format (PDict p) = convert_preference_to_sft_format (PDict q)"
proof -
  have "py_getitem (PDict p) ''input'' = py_getitem (PDict q) ''input''"
    using assms(1) by simp
  moreover have "py_getitem (PDict p) ''preferred_output'' = py_getitem (PDict q) ''preferred_output''"
    using assms(2) by simp
  ultimately show ?thesis
    unfolding convert_preference_to_sft_format_def by (simp only:)
qed

theorem sft_format_ignores_rejected_witness:
  "convert_preference_to_sft_format
     (PDict [(''input'', PDict [(''messages'',
                PList [PDict [(''role'', PStr ''user''), (''content'', PStr ''c#'')]])]),
             (''preferred_output'',
                PList [PDict [(''role'', PStr ''assistant''), (''content'', PStr ''A'')]]),
             (''non_preferred_output'',
                PList [PDict [(''role'', PStr ''assistant''), (''content'', PStr ''B'')]])]) =
   convert_preference_to_sft_format
     (PDict [(''input'', PDict [(''messages'',
                PList [PDict [(''role'', PStr ''user''), (''content'', PStr ''c#'')]])]),
             (''preferred_output'',
                PList [PDict [(''role'', PStr ''assistant''), (''content'', PStr ''A'')]]),
             (''non_preferred_output'', PStr ''something else'')])"
  by (rule sft_format_ignores_rejected) simp_all

text \<open>
  C9. A supervised record, a dictionary with the single key \<^verbatim>\<open>messages\<close>, has no
  \<^verbatim>\<open>input\<close>: the supervised formatter raises KeyError on it. In particular it raises on
  every record it has returned itself.
\<close>

theorem sft_format_not_reapplicable:
  "convert_preference_to_sft_format (PDict [(''messages'', messages)]) = Inl (KeyError ''input'')
   \<and> (convert_preference_to_sft_format p = Inr s \<longrightarrow>
        convert_preference_to_sft_format s = Inl (KeyError ''input''))"
  by (auto simp add: convert_preference_to_sft_format_def split: sum.splits)

theorem sft_format_not_reapplicable_witness:
  "convert_preference_to_sft_format
     (PDict [(''input'', PDict [(''messages'',
                PList [PDict [(''role'', PStr ''user''), (''content'', PStr ''c#'')]])]),
             (''preferred_output'',
                PList [PDict [(''role'', PStr ''assistant''), (''content'', PStr ''A'')]])]) =
   Inr (PDict [(''messages'',
          PList [PDict [(''role'', PStr ''user''), (''content'', PStr ''c#'')],
                 PDict [(''role'', PStr ''assistant''), (''content'', PStr ''A'')]])])
   \<and> convert_preference_to_sft_format
       (PDict [(''messages'',
          PList [PDict [(''role'', PStr ''user''), (''content'', PStr ''c#'')],
                 PDict [(''role'', PStr ''assistant''), (''content'', PStr ''A'')]])]) =
     Inl (KeyError ''input'')"
proof -
  have h: "convert_preference_to_sft_format
     (PDict [(''input'', PDict [(''messages'',
                PList [PDict [(''role'', PStr ''user''), (''content'', PStr ''c#'')]])]),
             (''preferred_output'',
                PList [PDict [(''role'', PStr ''assistant''), (''content'', PStr ''A'')]])]) =
   Inr (PDict [(''messages'',
          PList [PDict [(''role'', PStr ''user''), (''content'', PStr ''c#'')],
                 PDict [(''role'', PStr ''assistant''), (''content'', PStr ''A'')]])])"
    by (simp add: convert_preference_to_sft_format_def)
  from sft_format_not_reapplicable [THEN conjunct2, rule_format, OF h] h show ?thesis
    by (rule_tac conjI)
qed


section \<open>The drivers\<close>

text \<open>
  C4, at a failing input. \<^verbatim>\<open>process_preference_to_sft\<close> on a split of three records,
  of which the second and the third have no \<^verbatim>\<open>input\<close>, with the output path of the
  notebook and a \<^verbatim>\<open>json.dumps\<close> that serialises the first record: both exceptions are
  caught, the loop goes on and the count returned is 1, the number of lines written; but
  the number printed with each of the two failures is 2, \<open>line_count + 1\<close>, although the
  third record is at position 3.
\<close>

theorem error_report_number_diverges:
  assumes "dumps (PDict [(''messages'',
                    PList [PDict [(''role'', PStr ''user''), (''content'', PStr ''c#'')],
                           PDict [(''role'', PStr ''assistant''), (''content'', PStr ''A'')]])])
           = Inr serialised"
  shows "process_preference_to_sft dumps
     (PDict [(''train'',
        PList [PDict [(''input'', PDict [(''messages'',
                         PList [PDict [(''role'', PStr ''user''), (''content'', PStr ''c#'')]])]),
                      (''preferred_output'',
                         PList [PDict [(''role'', PStr ''assistant''), (''content'', PStr ''A'')]]),
                      (''non_preferred_output'',
                         PList [PDict [(''role'', PStr ''assistant''), (''content'', PStr ''B'')]])],
               PDict [],
               PDict []])])
     ''data/helpsteer2_sft_training.jsonl'' ''train'' =
   Inr \<lparr>line_count = 1,
        outfile = [serialised @ [CHR 0x0A]],
        stdout = [ErrorProcessing 2 (KeyError ''input''),
                  ErrorProcessing 2 (KeyError ''input''),
                  ProcessedFor 1 ''train'' ''data/helpsteer2_sft_training.jsonl'']\<rparr>"
proof -
  have dir: "os_makedirs (os_path_dirname ''data/helpsteer2_sft_training.jsonl'') = Inr ()"
    by (simp add: os_makedirs_def os_path_dirname_def)
  show ?thesis
    unfolding process_preference_to_sft_def dir
    by (simp add: split_examples_def process_example_def
          convert_preference_to_sft_format_def assms)
qed

theorem error_report_number_diverges_witness:
  "process_preference_to_sft (\<lambda>v. Inr ''{}'')
     (PDict [(''train'',
        PList [PDict [(''input'', PDict [(''messages'',
                         PList [PDict [(''role'', PStr ''user''), (''content'', PStr ''c#'')]])]),
                      (''preferred_output'',
                         PList [PDict [(''role'', PStr ''assistant''), (''content'', PStr ''A'')]]),
                      (''non_preferred_output'',
                         PList [PDict [(''role'', PStr ''assistant''), (''content'', PStr ''B'')]])],
               PDict [],
               PDict []])])
     ''data/helpsteer2_sft_training.jsonl'' ''train'' =
   Inr \<lparr>line_count = 1,
        outfile = [''{}'' @ [CHR 0x0A]],
        stdout = [ErrorProcessing 2 (KeyError ''input''),
                  ErrorProcessing 2 (KeyError ''input''),
                  ProcessedFor 1 ''train'' ''data/helpsteer2_sft_training.jsonl'']\<rparr>"
  by (rule error_report_number_diverges) (rule refl)



text \<open>
  C10. The preference conversion raises, and so returns no converted list for either
  split, exactly when the train split or the validation split is missing (or cannot be
  iterated) or some row of either split cannot be converted, for example because a column
  is missing.
\<close>

theorem preference_conversion_all_or_nothing:
  "isl (convert_to_preference_dataset dataset) =
   (isl (split_examples dataset ''train'')
    \<or> isl (split_examples dataset ''validation'')
    \<or> (\<exists>examples x.
          (split_examples dataset ''train'' = Inr examples
           \<or> split_examples dataset ''validation'' = Inr examples)
        \<and> x \<in> set examples
        \<and> isl (convert_example x)))"
  (is "?L = (?T \<or> ?V \<or> ?X)")
proof
  assume l: ?L
  show "?T \<or> ?V \<or> ?X"
  proof (rule ccontr)
    assume n: "\<not> (?T \<or> ?V \<or> ?X)"
    then have nt: "\<not> ?T" and nv: "\<not> ?V" and nx: "\<not> ?X"
      by simp_all
    from nt obtain tr where tr: "split_examples dataset ''train'' = Inr tr"
      by (cases "split_examples dataset ''train''") simp_all
    from nv obtain va where va: "split_examples dataset ''validation'' = Inr va"
      by (cases "split_examples dataset ''validation''") simp_all
    from nx tr have "\<forall>x\<in>set tr. \<not> isl (convert_example x)"
      by blast
    then obtain ptr where ptr: "list_all2 (\<lambda>x r. convert_example x = Inr r) tr ptr"
      using all_converted by blast
    from nx va have "\<forall>x\<in>set va. \<not> isl (convert_example x)"
      by blast
    then obtain pva where pva: "list_all2 (\<lambda>x r. convert_example x = Inr r) va pva"
      using all_converted by blast
    from convert_to_preference_dataset_Inr [OF tr va ptr pva] l show False
      by simp
  qed
next
  assume r: "?T \<or> ?V \<or> ?X"
  show ?L
  proof (rule ccontr)
    assume "\<not> ?L"
    then obtain out where "convert_to_preference_dataset dataset = Inr out"
      by (cases "convert_to_preference_dataset dataset") simp_all
    then obtain tr va ptr pva where h:
      "split_examples dataset ''train'' = Inr tr"
      "split_examples dataset ''validation'' = Inr va"
      "list_all2 (\<lambda>x r. convert_example x = Inr r) tr ptr"
      "list_all2 (\<lambda>x r. convert_example x = Inr r) va pva"
      by (rule convert_to_preference_dataset_InrD)
    from r h(1,2) have ?X by simp
    then obtain examples x where x:
      "split_examples dataset ''train'' = Inr examples
       \<or> split_examples dataset ''validation'' = Inr examples"
      "x \<in> set examples" "isl (convert_example x)"
      by (elim exE conjE)
    from x(1) h(1,2) have "examples = tr \<or> examples = va"
      by auto
    with x(2) have "x \<in> set tr \<or> x \<in> set va"
      by auto
    with list_all2_Inr_all [OF h(3)] list_all2_Inr_all [OF h(4)] x(3) show False
      by blast
  qed
qed

theorem preference_conversion_all_or_nothing_witness:
  "isl (convert_to_preference_dataset
          (PDict [(''train'',
             PList [PDict [(''prompt'', PStr ''c#''), (''chosen_response'', PStr ''A''),
                           (''rejected_response'', PStr ''B'')]])]))
   \<and> isl (convert_to_preference_dataset
          (PDict [(''train'',
             PList [PDict [(''prompt'', PStr ''c#''), (''chosen_response'', PStr ''A''),
                           (''rejected_response'', PStr ''B'')]]),
                  (''validation'',
             PList [PDict [(''prompt'', PStr ''c#''), (''chosen_response'', PStr ''A'')]])]))"
proof
  show "isl (convert_to_preference_dataset
          (PDict [(''train'',
             PList [PDict [(''prompt'', PStr ''c#''), (''chosen_response'', PStr ''A''),
                           (''rejected_response'', PStr ''B'')]])]))"
    unfolding preference_conversion_all_or_nothing
    by (simp add: split_examples_def)
next
  let ?bad = "PDict [(''prompt'', PStr ''c#''), (''chosen_response'', PStr ''A'')]"
  let ?ds = "PDict [(''train'',
             PList [PDict [(''prompt'', PStr ''c#''), (''chosen_response'', PStr ''A''),
                           (''rejected_response'', PStr ''B'')]]),
                  (''validation'', PList [?bad])]"
  show "isl (convert_to_preference_dataset ?ds)"
  proof (rule iffD2 [OF preference_conversion_all_or_nothing], intro disjI2 exI conjI)
    show "split_examples ?ds ''validation'' = Inr [?bad]"
      by (simp add: split_examples_def)
    show "?bad \<in> set [?bad]"
      by simp
    show "isl (convert_example ?bad)"
      by (simp add: convert_example_def)
  qed
qed

end
